theory Spec2Isabelle
  imports Main
begin

section \<open>The website deployment stack\<close>

text \<open>
  The repository is one class, \<^verbatim>\<open>WebsiteDeploymentStack\<close> in
  \<^verbatim>\<open>cdk/lib/website-deployment-stack.ts\<close>, whose constructor declares six
  constructs inside the stack and attaches one statement to the bucket's resource policy.
  The constructor is embedded as a function that threads the stack (\<open>this\<close>) through the
  declarations in the order of the source and returns it. The constructors of the
  constructs belong to the framework (\<^verbatim>\<open>aws-cdk-lib\<close>), which is not part of the
  repository; each is embedded by what it does to the stack and to the constructs already
  in it, so that the stack returned is the one the program builds and not only the props
  the source writes. A construct is referred to by
  its path in the construct tree, so that the references the source passes between
  constructs (the bucket given to the origin and to the deployment, the identity given to
  the origin, the distribution given to the deployment and to the output) are values that
  can be compared.

  An optional property of a props interface is an \<open>option\<close>: \<open>None\<close> is the key left
  out of the object literal. Of each props interface the fields are those the stack sets,
  and \<open>effect\<close>, \<open>certificate\<close> and \<open>additionalBehaviors\<close>, which it leaves out. The props of the stack
  itself are only handed on to \<^verbatim>\<open>super\<close>; two of their fields stand for them. The
  field \<^verbatim>\<open>value\<close> of the output is \<open>value'\<close>, \<open>value\<close> being a command of Isabelle.
\<close>

subsection \<open>Enumerations and constants of the framework\<close>

text \<open>
  The enumerations are declared by the framework, not by the repository. The stack names
  one member of each; the other members are listed so that the member it names is a
  choice among several. \<open>DENY_EFFECT\<close> is \<^verbatim>\<open>iam.Effect.DENY\<close> and \<open>ALLOW_ALL_PROTOCOLS\<close>
  is \<^verbatim>\<open>ViewerProtocolPolicy.ALLOW_ALL\<close>: the names \<open>DENY\<close> and \<open>ALLOW_ALL\<close> are those of
  \<^verbatim>\<open>HeadersFrameOption.DENY\<close> and \<^verbatim>\<open>AllowedMethods.ALLOW_ALL\<close>.
\<close>

datatype RemovalPolicy = DESTROY | RETAIN | SNAPSHOT | RETAIN_ON_UPDATE_OR_DELETE

datatype BucketAccessControl =
    PRIVATE | PUBLIC_READ | PUBLIC_READ_WRITE | AUTHENTICATED_READ | LOG_DELIVERY_WRITE
  | BUCKET_OWNER_READ | BUCKET_OWNER_FULL_CONTROL | AWS_EXEC_READ

datatype ObjectOwnership = BUCKET_OWNER_ENFORCED | BUCKET_OWNER_PREFERRED | OBJECT_WRITER

datatype BucketEncryption = UNENCRYPTED | KMS_MANAGED | S3_MANAGED | KMS | DSSE_MANAGED | DSSE

record BlockPublicAccess =
  blockPublicAcls :: bool
  blockPublicPolicy :: bool
  ignorePublicAcls :: bool
  restrictPublicBuckets :: bool

text \<open>
  Modelled from the spec: \<^verbatim>\<open>s3.BlockPublicAccess.BLOCK_ALL\<close> is a constant of the
  framework, which is not part of the repository. The spec's data model gives it as the
  public-access block with all four sub-flags enabled.
\<close>

definition BLOCK_ALL :: BlockPublicAccess where
  "BLOCK_ALL =
     \<lparr> blockPublicAcls = True, blockPublicPolicy = True,
       ignorePublicAcls = True, restrictPublicBuckets = True \<rparr>"

datatype TimeUnit = Milliseconds | Seconds | Minutes | Hours | Days

datatype Duration = Duration (amount: nat) (timeUnit: TimeUnit)

text \<open>
  Modelled from the spec: \<^verbatim>\<open>cdk.Duration\<close> belongs to the framework. A duration is an
  amount in a unit; \<open>Duration_days\<close> is the static method \<^verbatim>\<open>Duration.days\<close>. A day has
  86400 seconds, which for \<open>2 * 365\<close> days is the \<^verbatim>\<open>max-age=63072000\<close> of the spec;
  a millisecond amount is rounded down.
\<close>

definition Duration_days :: "nat \<Rightarrow> Duration" where
  "Duration_days n = Duration n Days"

fun toSeconds :: "Duration \<Rightarrow> nat" where
  "toSeconds (Duration n Milliseconds) = n div 1000"
| "toSeconds (Duration n Seconds) = n"
| "toSeconds (Duration n Minutes) = n * 60"
| "toSeconds (Duration n Hours) = n * 3600"
| "toSeconds (Duration n Days) = n * 86400"

datatype HeadersReferrerPolicy =
    NO_REFERRER | NO_REFERRER_WHEN_DOWNGRADE | ORIGIN | ORIGIN_WHEN_CROSS_ORIGIN
  | SAME_ORIGIN | STRICT_ORIGIN | STRICT_ORIGIN_WHEN_CROSS_ORIGIN | UNSAFE_URL

datatype HeadersFrameOption = DENY | SAMEORIGIN

datatype SecurityPolicyProtocol =
    SSL_V3 | TLS_V1 | TLS_V1_2016 | TLS_V1_1_2016 | TLS_V1_2_2018 | TLS_V1_2_2019
  | TLS_V1_2_2021

datatype AllowedMethods = ALLOW_GET_HEAD | ALLOW_GET_HEAD_OPTIONS | ALLOW_ALL

datatype ViewerProtocolPolicy = HTTPS_ONLY | REDIRECT_TO_HTTPS | ALLOW_ALL_PROTOCOLS

datatype Effect = ALLOW | DENY_EFFECT

subsection \<open>References and deploy-time values\<close>

type_synonym ConstructPath = "string list"

text \<open>
  A string of the source is either a literal or an attribute of a construct that the
  provider assigns at deployment; the attribute reads of the source are kept as terms
  over the path of the construct they are read from.
\<close>

datatype Token =
    Str string
  | bucketArn ConstructPath
  | arnForObjects ConstructPath string
  | roleArn ConstructPath
  | cloudFrontOriginAccessIdentityS3CanonicalUserId ConstructPath
  | domainName ConstructPath

datatype Principal = CanonicalUserPrincipal Token | ArnPrincipal Token | AnyPrincipal

subsection \<open>Props interfaces\<close>

record BucketProps =
  publicReadAccess :: "bool option"
  removalPolicy :: "RemovalPolicy option"
  autoDeleteObjects :: "bool option"
  blockPublicAccess :: "BlockPublicAccess option"
  accessControl :: "BucketAccessControl option"
  objectOwnership :: "ObjectOwnership option"
  encryption :: "BucketEncryption option"

record PolicyStatementProps =
  effect :: "Effect option"
  actions :: "string list option"
  resources :: "Token list option"
  principals :: "Principal list option"

datatype PolicyStatement =
  PolicyStatement (stmtEffect: Effect) (stmtActions: "string list")
    (stmtResources: "Token list") (stmtPrincipals: "Principal list")

text \<open>
  Modelled from the spec: the constructor of \<^verbatim>\<open>iam.PolicyStatement\<close> belongs to the
  framework. The stack passes no \<open>effect\<close>, and the spec's data model gives the effect of
  the statement as allow: that is the default taken here. A list left out is empty.
\<close>

definition new_PolicyStatement :: "PolicyStatementProps \<Rightarrow> PolicyStatement" where
  "new_PolicyStatement props =
     PolicyStatement
       (case effect props of None \<Rightarrow> ALLOW | Some e \<Rightarrow> e)
       (case actions props of None \<Rightarrow> [] | Some as \<Rightarrow> as)
       (case resources props of None \<Rightarrow> [] | Some rs \<Rightarrow> rs)
       (case principals props of None \<Rightarrow> [] | Some ps \<Rightarrow> ps)"

text \<open>
  Each of the six header directives has an \<open>override\<close> field. The directive with no
  other field, \<^verbatim>\<open>ResponseHeadersContentTypeOptions\<close>, is the base record and the five
  others extend it. The fields \<^verbatim>\<open>contentSecurityPolicy\<close> and \<^verbatim>\<open>referrerPolicy\<close> inside
  a directive carry a prime, since the behaviour that holds the directives has fields of
  the same names.
\<close>

record ResponseHeadersContentTypeOptions =
  override :: bool

record ResponseHeadersContentSecurityPolicy = ResponseHeadersContentTypeOptions +
  contentSecurityPolicy' :: string

record ResponseHeadersStrictTransportSecurity = ResponseHeadersContentTypeOptions +
  accessControlMaxAge :: Duration
  includeSubdomains :: "bool option"
  preload :: "bool option"

record ResponseHeadersReferrerPolicy = ResponseHeadersContentTypeOptions +
  referrerPolicy' :: HeadersReferrerPolicy

record ResponseHeadersXSSProtection = ResponseHeadersContentTypeOptions +
  protection :: bool
  modeBlock :: "bool option"

record ResponseHeadersFrameOptions = ResponseHeadersContentTypeOptions +
  frameOption :: HeadersFrameOption

record ResponseSecurityHeadersBehavior =
  contentSecurityPolicy :: "ResponseHeadersContentSecurityPolicy option"
  strictTransportSecurity :: "ResponseHeadersStrictTransportSecurity option"
  contentTypeOptions :: "ResponseHeadersContentTypeOptions option"
  referrerPolicy :: "ResponseHeadersReferrerPolicy option"
  xssProtection :: "ResponseHeadersXSSProtection option"
  frameOptions :: "ResponseHeadersFrameOptions option"

record ResponseHeadersPolicyProps =
  comment :: "string option"
  securityHeadersBehavior :: "ResponseSecurityHeadersBehavior option"

record S3OriginProps =
  originAccessIdentity :: "ConstructPath option"

datatype Origin = S3Origin ConstructPath S3OriginProps

record BehaviorOptions =
  origin :: Origin
  compress :: "bool option"
  allowedMethods :: "AllowedMethods option"
  viewerProtocolPolicy :: "ViewerProtocolPolicy option"
  responseHeadersPolicy :: "ConstructPath option"

record ErrorResponse =
  httpStatus :: nat
  responseHttpStatus :: "nat option"
  responsePagePath :: "string option"

record DistributionProps =
  defaultRootObject :: "string option"
  minimumProtocolVersion :: "SecurityPolicyProtocol option"
  certificate :: "Token option"
  defaultBehavior :: BehaviorOptions
  additionalBehaviors :: "(string \<times> BehaviorOptions) list option"
  errorResponses :: "ErrorResponse list option"

datatype Source = Source_asset string

record BucketDeploymentProps =
  sources :: "Source list"
  prune :: "bool option"
  destinationBucket :: ConstructPath
  distribution :: "ConstructPath option"

record CfnOutputProps =
  value' :: Token
  description :: "string option"
  exportName :: "string option"

record StackProps =
  stackName :: "string option"
  terminationProtection :: "bool option"

subsection \<open>The construct tree of the stack\<close>

text \<open>
  A bucket carries, beside its props, the statements of its resource policy in the order
  in which they were attached, whoever attached them: the constructor of the bucket, the
  stack with \<^verbatim>\<open>addToResourcePolicy\<close>, or the origin of a distribution. The children of
  the stack that are tracked are the six constructs of the source and the provider whose
  role the bucket's policy names. What the framework declares for its own use beneath a
  construct (the custom resource of the bucket, the origin of the distribution, the
  handler of the deployment with its role and its asset) is not tracked.
\<close>

datatype Construct =
    is_Bucket: Bucket BucketProps "PolicyStatement list"
  | is_OriginAccessIdentity: OriginAccessIdentity
  | is_ResponseHeadersPolicy: ResponseHeadersPolicy ResponseHeadersPolicyProps
  | is_Distribution: Distribution DistributionProps
  | is_BucketDeployment: BucketDeployment BucketDeploymentProps
  | is_CfnOutput: CfnOutput CfnOutputProps
  | is_CustomResourceProvider: CustomResourceProvider string

record Stack =
  stackScope :: ConstructPath
  stackId :: string
  stackProps :: "StackProps option"
  children :: "(string \<times> Construct) list"

text \<open>\<^verbatim>\<open>super(scope, id, props)\<close>: the stack with no construct declared in it yet.\<close>

definition super :: "ConstructPath \<Rightarrow> string \<Rightarrow> StackProps option \<Rightarrow> Stack" where
  "super scope ident props =
     \<lparr> stackScope = scope, stackId = ident, stackProps = props, children = [] \<rparr>"

definition stackPath :: "Stack \<Rightarrow> ConstructPath" where
  "stackPath this = stackScope this @ [stackId this]"

text \<open>
  The first step of every \<^verbatim>\<open>new C(this, id, props)\<close>: the construct becomes a child of
  the stack, and its path is the reference to it. The framework refuses an identifier
  that the scope already has; the identifiers of the source are distinct literals, so
  that refusal is no branch of the constructor.
\<close>

definition addChild :: "Stack \<Rightarrow> string \<Rightarrow> Construct \<Rightarrow> ConstructPath \<times> Stack" where
  "addChild this ident c =
     (stackPath this @ [ident], this\<lparr> children := children this @ [(ident, c)] \<rparr>)"

text \<open>
  \<^verbatim>\<open>bucket.addToResourcePolicy(statement)\<close> mutates the bucket the reference points to:
  the statement is appended to the policy of that bucket and every other construct is
  left as it is.
\<close>

fun addStatement :: "PolicyStatement \<Rightarrow> Construct \<Rightarrow> Construct" where
  "addStatement st (Bucket props policy) = Bucket props (policy @ [st])"
| "addStatement st c = c"

definition addToResourcePolicy :: "ConstructPath \<Rightarrow> PolicyStatement \<Rightarrow> Stack \<Rightarrow> Stack" where
  "addToResourcePolicy bucket st this =
     this\<lparr> children :=
       map (\<lambda>(ident, c).
              if stackPath this @ [ident] = bucket then (ident, addStatement st c)
              else (ident, c))
           (children this) \<rparr>"

subsection \<open>The constructors of the framework\<close>

text \<open>
  \<^verbatim>\<open>new s3.Bucket(this, id, props)\<close>. Beside declaring the bucket, the constructor of the
  framework acts on two of the props the stack sets.
  \<^item> With \<^verbatim>\<open>publicReadAccess\<close> true it grants \<^verbatim>\<open>s3:GetObject\<close> on every object to
    anyone. (With a public-access block that blocks public policies it raises instead;
    the stack passes false and the branch is not taken.)
  \<^item> With \<^verbatim>\<open>autoDeleteObjects\<close> true it gets the stack's provider for the automatic
    deletion, declaring it under the stack when it is not there, and attaches to the
    policy of the bucket a statement that lets the role of that provider change the
    bucket policy, read the bucket's metadata, list it and delete its objects. (Without
    the removal policy DESTROY it raises instead; the stack passes DESTROY.)
\<close>

definition getOrCreateProvider :: "Stack \<Rightarrow> ConstructPath \<times> Stack" where
  "getOrCreateProvider this =
     (let ident = ''Custom::S3AutoDeleteObjectsCustomResourceProvider''
      in if ident \<in> set (map fst (children this)) then (stackPath this @ [ident], this)
         else addChild this ident (CustomResourceProvider ''Custom::S3AutoDeleteObjects''))"

definition grantPublicAccess :: "ConstructPath \<Rightarrow> Stack \<Rightarrow> Stack" where
  "grantPublicAccess bucket this =
     addToResourcePolicy bucket (new_PolicyStatement
       \<lparr> effect = None,
         actions = Some [''s3:GetObject''],
         resources = Some [arnForObjects bucket ''*''],
         principals = Some [AnyPrincipal] \<rparr>) this"

definition enableAutoDeleteObjects :: "ConstructPath \<Rightarrow> Stack \<Rightarrow> Stack" where
  "enableAutoDeleteObjects bucket this =
     (let (provider, this) = getOrCreateProvider this
      in addToResourcePolicy bucket (new_PolicyStatement
           \<lparr> effect = None,
             actions = Some [''s3:PutBucketPolicy'', ''s3:GetBucket*'', ''s3:List*'',
                             ''s3:DeleteObject*''],
             resources = Some [bucketArn bucket, arnForObjects bucket ''*''],
             principals = Some [ArnPrincipal (roleArn provider)] \<rparr>) this)"

definition new_Bucket :: "Stack \<Rightarrow> string \<Rightarrow> BucketProps \<Rightarrow> ConstructPath \<times> Stack" where
  "new_Bucket this ident props =
     (let (bucket, this) = addChild this ident (Bucket props []);
          this = (if publicReadAccess props = Some True
                  then grantPublicAccess bucket this else this);
          this = (if autoDeleteObjects props = Some True
                  then enableAutoDeleteObjects bucket this else this)
      in (bucket, this))"

text \<open>
  \<^verbatim>\<open>new cloudfront.OriginAccessIdentity(this, id)\<close> and
  \<^verbatim>\<open>new cloudfront.ResponseHeadersPolicy(this, id, props)\<close> declare the construct and
  touch no other.
\<close>

definition new_OriginAccessIdentity :: "Stack \<Rightarrow> string \<Rightarrow> ConstructPath \<times> Stack" where
  "new_OriginAccessIdentity this ident = addChild this ident OriginAccessIdentity"

definition new_ResponseHeadersPolicy ::
    "Stack \<Rightarrow> string \<Rightarrow> ResponseHeadersPolicyProps \<Rightarrow> ConstructPath \<times> Stack" where
  "new_ResponseHeadersPolicy this ident props = addChild this ident (ResponseHeadersPolicy props)"

text \<open>
  \<^verbatim>\<open>new cloudfront.Distribution(this, id, props)\<close>. The constructor binds the origin of
  each behaviour. Binding an S3 origin attaches to the policy of its bucket a statement
  that lets the origin access identity read every object: the identity of the props, or
  one that the origin declares beneath the distribution when the props give none.

  The viewer certificate of the distribution is rendered from the \<^verbatim>\<open>certificate\<close> prop:
  without a certificate there is none, and \<^verbatim>\<open>minimumProtocolVersion\<close> goes nowhere.
  With a certificate, the protocol version left out is the framework's default.
\<close>

fun bindOrigin :: "ConstructPath \<Rightarrow> Origin \<Rightarrow> Stack \<Rightarrow> Stack" where
  "bindOrigin dist (S3Origin bucket originProps) this =
     (let identity = (case originAccessIdentity originProps of
                        Some oai \<Rightarrow> oai
                      | None \<Rightarrow> dist @ [''Origin'', ''S3Origin''])
      in addToResourcePolicy bucket (new_PolicyStatement
           \<lparr> effect = None,
             actions = Some [''s3:GetObject''],
             resources = Some [arnForObjects bucket ''*''],
             principals = Some [CanonicalUserPrincipal
               (cloudFrontOriginAccessIdentityS3CanonicalUserId identity)] \<rparr>) this)"

definition behaviors :: "DistributionProps \<Rightarrow> BehaviorOptions list" where
  "behaviors props =
     defaultBehavior props #
     (case additionalBehaviors props of None \<Rightarrow> [] | Some bs \<Rightarrow> map snd bs)"

definition new_Distribution ::
    "Stack \<Rightarrow> string \<Rightarrow> DistributionProps \<Rightarrow> ConstructPath \<times> Stack" where
  "new_Distribution this ident props =
     (let (dist, this) = addChild this ident (Distribution props)
      in (dist, fold (\<lambda>b. bindOrigin dist (origin b)) (behaviors props) this))"

record ViewerCertificate =
  acmCertificateArn :: Token
  minimumProtocolVersion' :: SecurityPolicyProtocol

definition renderViewerCertificate :: "DistributionProps \<Rightarrow> ViewerCertificate option" where
  "renderViewerCertificate props =
     (case certificate props of
        None \<Rightarrow> None
      | Some cert \<Rightarrow> Some
          \<lparr> acmCertificateArn = cert,
            minimumProtocolVersion' =
              (case minimumProtocolVersion props of
                 None \<Rightarrow> TLS_V1_2_2021
               | Some v \<Rightarrow> v) \<rparr>)"

text \<open>
  \<^verbatim>\<open>new s3deploy.BucketDeployment(this, id, props)\<close> and
  \<^verbatim>\<open>new cdk.CfnOutput(this, id, props)\<close>. The deployment gives its handler's role its
  access to the bucket in the policy of that role, not in the policy of the bucket; no
  construct already in the stack is touched.
\<close>

definition new_BucketDeployment ::
    "Stack \<Rightarrow> string \<Rightarrow> BucketDeploymentProps \<Rightarrow> ConstructPath \<times> Stack" where
  "new_BucketDeployment this ident props = addChild this ident (BucketDeployment props)"

definition new_CfnOutput :: "Stack \<Rightarrow> string \<Rightarrow> CfnOutputProps \<Rightarrow> ConstructPath \<times> Stack" where
  "new_CfnOutput this ident props = addChild this ident (CfnOutput props)"

subsection \<open>The constructor\<close>

definition WebsiteDeploymentStack :: "ConstructPath \<Rightarrow> string \<Rightarrow> StackProps option \<Rightarrow> Stack" where
  "WebsiteDeploymentStack scope ident props =
    (let this = super scope ident props;

         (s3HostingBucket, this) = new_Bucket this ''S3HostingBucket''
           \<lparr> publicReadAccess = Some False,
             removalPolicy = Some DESTROY,
             autoDeleteObjects = Some True,
             blockPublicAccess = Some BLOCK_ALL,
             accessControl = Some PRIVATE,
             objectOwnership = Some BUCKET_OWNER_ENFORCED,
             encryption = Some S3_MANAGED \<rparr>;

         (cloudfrontOAI, this) =
           new_OriginAccessIdentity this ''CloudFrontOriginAccessIdentity'';

         policyStatement = new_PolicyStatement
           \<lparr> effect = None,
             actions = Some [''s3:GetObject''],
             resources = Some [arnForObjects s3HostingBucket ''*''],
             principals = Some [CanonicalUserPrincipal
               (cloudFrontOriginAccessIdentityS3CanonicalUserId cloudfrontOAI)] \<rparr>;

         this = addToResourcePolicy s3HostingBucket policyStatement this;

         (responseHeaderPolicy, this) =
           new_ResponseHeadersPolicy this ''CloudFrontResponseHeaderPolicy''
             \<lparr> comment = Some ''Security headers response header policy'',
               securityHeadersBehavior = Some
                 \<lparr> contentSecurityPolicy = Some
                     \<lparr> override = True,
                       contentSecurityPolicy' = ''default-src https:;'' \<rparr>,
                   strictTransportSecurity = Some
                     \<lparr> override = True,
                       accessControlMaxAge = Duration_days (2 * 365),
                       includeSubdomains = Some True,
                       preload = Some True \<rparr>,
                   contentTypeOptions = Some
                     \<lparr> override = True \<rparr>,
                   referrerPolicy = Some
                     \<lparr> override = True,
                       referrerPolicy' = STRICT_ORIGIN_WHEN_CROSS_ORIGIN \<rparr>,
                   xssProtection = Some
                     \<lparr> override = True,
                       protection = True,
                       modeBlock = Some True \<rparr>,
                   frameOptions = Some
                     \<lparr> override = True,
                       frameOption = DENY \<rparr> \<rparr> \<rparr>;

         (cloudfrontDistribution, this) =
           new_Distribution this ''CloudFrontDistribution''
             \<lparr> defaultRootObject = Some ''index.html'',
               minimumProtocolVersion = Some TLS_V1_2_2021,
               certificate = None,
               defaultBehavior =
                 \<lparr> origin = S3Origin s3HostingBucket
                     \<lparr> originAccessIdentity = Some cloudfrontOAI \<rparr>,
                   compress = Some True,
                   allowedMethods = Some ALLOW_GET_HEAD_OPTIONS,
                   viewerProtocolPolicy = Some REDIRECT_TO_HTTPS,
                   responseHeadersPolicy = Some responseHeaderPolicy \<rparr>,
               additionalBehaviors = None,
               errorResponses = Some
                 [ \<lparr> httpStatus = 403,
                     responseHttpStatus = Some 404,
                     responsePagePath = Some ''/404.html'' \<rparr> ] \<rparr>;

         (_, this) =
           new_BucketDeployment this ''S3HostingBucketDeployment''
             \<lparr> sources = [Source_asset ''../website''],
               prune = Some False,
               destinationBucket = s3HostingBucket,
               distribution = Some cloudfrontDistribution \<rparr>;

         (_, this) =
           new_CfnOutput this ''CloudFrontDomainName''
             \<lparr> value' = domainName cloudfrontDistribution,
               description = Some ''Domain name of the CloudFront distribution'',
               exportName = Some ''cloudFrontDomainName'' \<rparr>
     in this)"

subsection \<open>Reading the declared stack\<close>

text \<open>The construct a reference points to, if the stack declares it.\<close>

definition tryFindChild :: "Stack \<Rightarrow> ConstructPath \<Rightarrow> Construct option" where
  "tryFindChild this r =
     map_of (map (\<lambda>(ident, c). (stackPath this @ [ident], c)) (children this)) r"

text \<open>The references of the constructs of one kind, in the order of their declaration.\<close>

definition declared :: "(Construct \<Rightarrow> bool) \<Rightarrow> Stack \<Rightarrow> ConstructPath list" where
  "declared kind this =
     map (\<lambda>(ident, c). stackPath this @ [ident]) (filter (\<lambda>(ident, c). kind c) (children this))"

text \<open>
  An action of a statement is a pattern: \<open>*\<close> stands for any run of characters and
  \<open>?\<close> for any one character. (The provider compares action names without regard to
  case; the actions here are compared as written.)
\<close>

fun matchesPattern :: "string \<Rightarrow> string \<Rightarrow> bool" where
  "matchesPattern [] [] = True"
| "matchesPattern [] (c # cs) = False"
| "matchesPattern (p # ps) [] = (p = CHR ''*'' \<and> matchesPattern ps [])"
| "matchesPattern (p # ps) (c # cs) =
     (if p = CHR ''*'' then matchesPattern ps (c # cs) \<or> matchesPattern (p # ps) cs
      else (p = CHR ''?'' \<or> p = c) \<and> matchesPattern ps cs)"


text \<open>
  The override flags of the directives that a security-headers behaviour sets, in the
  order of the fields of the interface.
\<close>

definition directiveOverrides :: "ResponseSecurityHeadersBehavior \<Rightarrow> bool list" where
  "directiveOverrides b =
     List.map_filter (\<lambda>x. x)
       [ map_option override (contentSecurityPolicy b),
         map_option override (strictTransportSecurity b),
         map_option override (contentTypeOptions b),
         map_option override (referrerPolicy b),
         map_option override (xssProtection b),
         map_option override (frameOptions b) ]"

text \<open>The declared error response for an origin status: the first rule with that status.\<close>

definition errorResponseFor :: "DistributionProps \<Rightarrow> nat \<Rightarrow> ErrorResponse option" where
  "errorResponseFor d status =
     (case errorResponses d of
        None \<Rightarrow> None
      | Some rules \<Rightarrow> find (\<lambda>r. httpStatus r = status) rules)"

section \<open>The constructor, evaluated\<close>

text \<open>
  Every property is stated of the stack that the constructor returns for arbitrary
  arguments \<open>scope\<close>, \<open>ident\<close> and \<open>props\<close>: none of the declared values depends on
  them, only the paths of the constructs do. What the provider does with the stack at
  deployment is outside the repository.
\<close>

lemmas constructor_defs =
  WebsiteDeploymentStack_def super_def addChild_def stackPath_def addToResourcePolicy_def
  new_PolicyStatement_def new_Bucket_def enableAutoDeleteObjects_def getOrCreateProvider_def
  grantPublicAccess_def new_OriginAccessIdentity_def new_ResponseHeadersPolicy_def
  new_Distribution_def behaviors_def new_BucketDeployment_def new_CfnOutput_def Let_def

lemma stackPath_WebsiteDeploymentStack:
  "stackPath (WebsiteDeploymentStack scope ident props) = scope @ [ident]"
  by (simp add: constructor_defs)

text \<open>
  The constructs of each kind: the six of the source, and the provider that the
  constructor of the bucket declares for the automatic deletion.
\<close>

lemma declared_WebsiteDeploymentStack:
  "declared is_Bucket (WebsiteDeploymentStack scope ident props) =
     [scope @ [ident, ''S3HostingBucket'']]"
  "declared is_OriginAccessIdentity (WebsiteDeploymentStack scope ident props) =
     [scope @ [ident, ''CloudFrontOriginAccessIdentity'']]"
  "declared is_ResponseHeadersPolicy (WebsiteDeploymentStack scope ident props) =
     [scope @ [ident, ''CloudFrontResponseHeaderPolicy'']]"
  "declared is_Distribution (WebsiteDeploymentStack scope ident props) =
     [scope @ [ident, ''CloudFrontDistribution'']]"
  "declared is_BucketDeployment (WebsiteDeploymentStack scope ident props) =
     [scope @ [ident, ''S3HostingBucketDeployment'']]"
  "declared is_CfnOutput (WebsiteDeploymentStack scope ident props) =
     [scope @ [ident, ''CloudFrontDomainName'']]"
  "declared is_CustomResourceProvider (WebsiteDeploymentStack scope ident props) =
     [scope @ [ident, ''Custom::S3AutoDeleteObjectsCustomResourceProvider'']]"
  by (simp_all add: constructor_defs declared_def)

text \<open>
  The bucket at the end of the constructor. Its policy has three statements: the one its
  own constructor attached for the automatic deletion, the one the stack attached with
  \<^verbatim>\<open>addToResourcePolicy\<close>, and the one the distribution attached when it bound its
  origin, which is equal to the stack's.
\<close>

lemma s3HostingBucket_declared:
  "tryFindChild (WebsiteDeploymentStack scope ident props)
     (scope @ [ident, ''S3HostingBucket'']) =
   Some (Bucket
     \<lparr> publicReadAccess = Some False, removalPolicy = Some DESTROY,
       autoDeleteObjects = Some True, blockPublicAccess = Some BLOCK_ALL,
       accessControl = Some PRIVATE, objectOwnership = Some BUCKET_OWNER_ENFORCED,
       encryption = Some S3_MANAGED \<rparr>
     [PolicyStatement ALLOW
        [''s3:PutBucketPolicy'', ''s3:GetBucket*'', ''s3:List*'', ''s3:DeleteObject*'']
        [bucketArn (scope @ [ident, ''S3HostingBucket'']),
         arnForObjects (scope @ [ident, ''S3HostingBucket'']) ''*'']
        [ArnPrincipal (roleArn
           (scope @ [ident, ''Custom::S3AutoDeleteObjectsCustomResourceProvider'']))],
      PolicyStatement ALLOW [''s3:GetObject'']
        [arnForObjects (scope @ [ident, ''S3HostingBucket'']) ''*'']
        [CanonicalUserPrincipal (cloudFrontOriginAccessIdentityS3CanonicalUserId
           (scope @ [ident, ''CloudFrontOriginAccessIdentity'']))],
      PolicyStatement ALLOW [''s3:GetObject'']
        [arnForObjects (scope @ [ident, ''S3HostingBucket'']) ''*'']
        [CanonicalUserPrincipal (cloudFrontOriginAccessIdentityS3CanonicalUserId
           (scope @ [ident, ''CloudFrontOriginAccessIdentity'']))]])"
  by (simp add: constructor_defs tryFindChild_def)

lemma cloudfrontOAI_declared:
  "tryFindChild (WebsiteDeploymentStack scope ident props)
     (scope @ [ident, ''CloudFrontOriginAccessIdentity'']) = Some OriginAccessIdentity"
  by (simp add: constructor_defs tryFindChild_def)

lemma responseHeaderPolicy_declared:
  "tryFindChild (WebsiteDeploymentStack scope ident props)
     (scope @ [ident, ''CloudFrontResponseHeaderPolicy'']) =
   Some (ResponseHeadersPolicy
     \<lparr> comment = Some ''Security headers response header policy'',
       securityHeadersBehavior = Some
         \<lparr> contentSecurityPolicy = Some
             \<lparr> override = True, contentSecurityPolicy' = ''default-src https:;'' \<rparr>,
           strictTransportSecurity = Some
             \<lparr> override = True, accessControlMaxAge = Duration_days (2 * 365),
               includeSubdomains = Some True, preload = Some True \<rparr>,
           contentTypeOptions = Some \<lparr> override = True \<rparr>,
           referrerPolicy = Some
             \<lparr> override = True, referrerPolicy' = STRICT_ORIGIN_WHEN_CROSS_ORIGIN \<rparr>,
           xssProtection = Some
             \<lparr> override = True, protection = True, modeBlock = Some True \<rparr>,
           frameOptions = Some \<lparr> override = True, frameOption = DENY \<rparr> \<rparr> \<rparr>)"
  by (simp add: constructor_defs tryFindChild_def)

lemma cloudfrontDistribution_declared:
  "tryFindChild (WebsiteDeploymentStack scope ident props)
     (scope @ [ident, ''CloudFrontDistribution'']) =
   Some (Distribution
     \<lparr> defaultRootObject = Some ''index.html'',
       minimumProtocolVersion = Some TLS_V1_2_2021,
       certificate = None,
       defaultBehavior =
         \<lparr> origin = S3Origin (scope @ [ident, ''S3HostingBucket''])
             \<lparr> originAccessIdentity =
                 Some (scope @ [ident, ''CloudFrontOriginAccessIdentity'']) \<rparr>,
           compress = Some True,
           allowedMethods = Some ALLOW_GET_HEAD_OPTIONS,
           viewerProtocolPolicy = Some REDIRECT_TO_HTTPS,
           responseHeadersPolicy =
             Some (scope @ [ident, ''CloudFrontResponseHeaderPolicy'']) \<rparr>,
       additionalBehaviors = None,
       errorResponses = Some
         [ \<lparr> httpStatus = 403, responseHttpStatus = Some 404,
             responsePagePath = Some ''/404.html'' \<rparr> ] \<rparr>)"
  by (simp add: constructor_defs tryFindChild_def)

lemma bucketDeployment_declared:
  "tryFindChild (WebsiteDeploymentStack scope ident props)
     (scope @ [ident, ''S3HostingBucketDeployment'']) =
   Some (BucketDeployment
     \<lparr> sources = [Source_asset ''../website''], prune = Some False,
       destinationBucket = scope @ [ident, ''S3HostingBucket''],
       distribution = Some (scope @ [ident, ''CloudFrontDistribution'']) \<rparr>)"
  by (simp add: constructor_defs tryFindChild_def)

lemma cfnOutput_declared:
  "tryFindChild (WebsiteDeploymentStack scope ident props)
     (scope @ [ident, ''CloudFrontDomainName'']) =
   Some (CfnOutput
     \<lparr> value' = domainName (scope @ [ident, ''CloudFrontDistribution'']),
       description = Some ''Domain name of the CloudFront distribution'',
       exportName = Some ''cloudFrontDomainName'' \<rparr>)"
  by (simp add: constructor_defs tryFindChild_def)

subsection \<open>Facts about the readings\<close>

lemma toSeconds_Duration_days: "toSeconds (Duration_days n) = n * 86400"
  by (simp add: Duration_days_def)

lemma matchesPattern_Nil: "matchesPattern [] s \<longleftrightarrow> s = []"
  by (cases s) simp_all

lemma matchesPattern_literal:
  "CHR ''*'' \<notin> set p \<Longrightarrow> CHR ''?'' \<notin> set p \<Longrightarrow> matchesPattern p s \<longleftrightarrow> s = p"
proof (induction p arbitrary: s)
  case Nil
  then show ?case by (simp add: matchesPattern_Nil)
next
  case (Cons a p)
  then show ?case by (cases s) auto
qed




lemma new_PolicyStatement_default_effect:
  "effect p = None \<Longrightarrow> stmtEffect (new_PolicyStatement p) = ALLOW"
  by (simp add: new_PolicyStatement_def)

lemma errorResponseFor_single:
  "errorResponses d = Some [r] \<Longrightarrow>
   errorResponseFor d status = (if httpStatus r = status then Some r else None)"
  by (simp add: errorResponseFor_def)

lemma errorResponseFor_none: "errorResponses d = None \<Longrightarrow> errorResponseFor d status = None"
  by (simp add: errorResponseFor_def)

lemma directiveOverrides_length: "length (directiveOverrides b) \<le> 6"
  by (simp add: directiveOverrides_def List.map_filter_def le_trans [OF length_filter_le])

section \<open>Properties of the declared stack\<close>


text \<open>
  C2: the one response-headers policy of the stack sets six directives, every one with
  \<open>override\<close> true: the content security policy \<^verbatim>\<open>default-src https:;\<close>; strict
  transport security with a max-age of 63072000 seconds, sub-domains included and
  preload; content-type options; the referrer policy strict-origin-when-cross-origin;
  XSS protection on, in block mode; frame options DENY. The default behaviour of the
  distribution, which has no other behaviour, names this policy.
\<close>

theorem response_headers_policy_six_overriding_directives:
  "(case tryFindChild (WebsiteDeploymentStack scope ident props)
           (scope @ [ident, ''CloudFrontResponseHeaderPolicy'']) of
      Some (ResponseHeadersPolicy policyProps) \<Rightarrow>
        (case securityHeadersBehavior policyProps of
           Some b \<Rightarrow>
             directiveOverrides b = [True, True, True, True, True, True] \<and>
             map_option contentSecurityPolicy' (contentSecurityPolicy b) =
               Some ''default-src https:;'' \<and>
             map_option (toSeconds \<circ> accessControlMaxAge) (strictTransportSecurity b) =
               Some 63072000 \<and>
             map_option includeSubdomains (strictTransportSecurity b) = Some (Some True) \<and>
             map_option preload (strictTransportSecurity b) = Some (Some True) \<and>
             contentTypeOptions b = Some \<lparr> override = True \<rparr> \<and>
             map_option referrerPolicy' (referrerPolicy b) =
               Some STRICT_ORIGIN_WHEN_CROSS_ORIGIN \<and>
             map_option protection (xssProtection b) = Some True \<and>
             map_option modeBlock (xssProtection b) = Some (Some True) \<and>
             map_option frameOption (frameOptions b) = Some DENY
         | None \<Rightarrow> False)
    | _ \<Rightarrow> False) \<and>
   declared is_ResponseHeadersPolicy (WebsiteDeploymentStack scope ident props) =
     [scope @ [ident, ''CloudFrontResponseHeaderPolicy'']] \<and>
   (case tryFindChild (WebsiteDeploymentStack scope ident props)
           (scope @ [ident, ''CloudFrontDistribution'']) of
      Some (Distribution d) \<Rightarrow>
        responseHeadersPolicy (defaultBehavior d) =
          Some (scope @ [ident, ''CloudFrontResponseHeaderPolicy'']) \<and>
        additionalBehaviors d = None
    | _ \<Rightarrow> False)"
proof -
  have two_years: "toSeconds (Duration_days (2 * 365)) = 63072000"
    by (simp add: toSeconds_Duration_days)
  show ?thesis
    unfolding responseHeaderPolicy_declared cloudfrontDistribution_declared
    by (simp add: declared_WebsiteDeploymentStack directiveOverrides_def
        List.map_filter_simps two_years [simplified])
qed

text \<open>
  C3: the distribution declares one error response, for the origin status 403: it
  answers with the page \<^verbatim>\<open>/404.html\<close> and the status 404. For every other origin
  status no error response is declared.
\<close>

theorem distribution_error_response_403_only:
  "(case tryFindChild (WebsiteDeploymentStack scope ident props)
           (scope @ [ident, ''CloudFrontDistribution'']) of
      Some (Distribution d) \<Rightarrow>
        map_option length (errorResponses d) = Some 1 \<and>
        (\<forall>status. errorResponseFor d status =
           (if status = 403
            then Some \<lparr> httpStatus = 403, responseHttpStatus = Some 404,
                        responsePagePath = Some ''/404.html'' \<rparr>
            else None))
    | _ \<Rightarrow> False)"
proof -
  let ?rule = "\<lparr> httpStatus = 403, responseHttpStatus = Some 404,
                 responsePagePath = Some ''/404.html'' \<rparr>"
  have "errorResponseFor d status = (if status = 403 then Some ?rule else None)"
    if "errorResponses d = Some [?rule]" for d status
    using errorResponseFor_single [OF that, of status] by auto
  then show ?thesis
    by (simp add: cloudfrontDistribution_declared)
qed

text \<open>
  C4: the distribution has the default behaviour and no additional one. The default
  behaviour has the bucket as its origin, through the origin access identity, redirects
  viewers to HTTPS, allows the methods GET, HEAD and OPTIONS, compresses, and names the
  response-headers policy. The props ask for the minimum protocol version TLS 1.2 of
  2021, but they give no certificate: the distribution is rendered without a viewer
  certificate, and so with no minimum protocol version of its own.
\<close>

theorem distribution_default_behavior_no_viewer_certificate:
  "(case tryFindChild (WebsiteDeploymentStack scope ident props)
           (scope @ [ident, ''CloudFrontDistribution'']) of
      Some (Distribution d) \<Rightarrow>
        additionalBehaviors d = None \<and>
        origin (defaultBehavior d) =
          S3Origin (scope @ [ident, ''S3HostingBucket''])
            \<lparr> originAccessIdentity =
                Some (scope @ [ident, ''CloudFrontOriginAccessIdentity'']) \<rparr> \<and>
        viewerProtocolPolicy (defaultBehavior d) = Some REDIRECT_TO_HTTPS \<and>
        allowedMethods (defaultBehavior d) = Some ALLOW_GET_HEAD_OPTIONS \<and>
        compress (defaultBehavior d) = Some True \<and>
        responseHeadersPolicy (defaultBehavior d) =
          Some (scope @ [ident, ''CloudFrontResponseHeaderPolicy'']) \<and>
        minimumProtocolVersion d = Some TLS_V1_2_2021 \<and>
        certificate d = None \<and>
        renderViewerCertificate d = None
    | _ \<Rightarrow> False) \<and>
   map_option is_Bucket (tryFindChild (WebsiteDeploymentStack scope ident props)
     (scope @ [ident, ''S3HostingBucket''])) = Some True \<and>
   map_option is_OriginAccessIdentity (tryFindChild (WebsiteDeploymentStack scope ident props)
     (scope @ [ident, ''CloudFrontOriginAccessIdentity''])) = Some True \<and>
   map_option is_ResponseHeadersPolicy (tryFindChild (WebsiteDeploymentStack scope ident props)
     (scope @ [ident, ''CloudFrontResponseHeaderPolicy''])) = Some True"
  by (simp add: cloudfrontDistribution_declared s3HostingBucket_declared
      cloudfrontOAI_declared responseHeaderPolicy_declared renderViewerCertificate_def)

text \<open>
  C5: the one deployment of the stack is declared with \<open>prune\<close> false, into the bucket,
  and with the distribution of the stack as the distribution to invalidate.
\<close>

theorem deployment_no_prune_with_distribution:
  "(case tryFindChild (WebsiteDeploymentStack scope ident props)
           (scope @ [ident, ''S3HostingBucketDeployment'']) of
      Some (BucketDeployment deployProps) \<Rightarrow>
        prune deployProps = Some False \<and>
        destinationBucket deployProps = scope @ [ident, ''S3HostingBucket''] \<and>
        distribution deployProps = Some (scope @ [ident, ''CloudFrontDistribution''])
    | _ \<Rightarrow> False) \<and>
   declared is_BucketDeployment (WebsiteDeploymentStack scope ident props) =
     [scope @ [ident, ''S3HostingBucketDeployment'']] \<and>
   declared is_Bucket (WebsiteDeploymentStack scope ident props) =
     [scope @ [ident, ''S3HostingBucket'']] \<and>
   declared is_Distribution (WebsiteDeploymentStack scope ident props) =
     [scope @ [ident, ''CloudFrontDistribution'']]"
  by (simp add: bucketDeployment_declared declared_WebsiteDeploymentStack)


text \<open>
  C7: the stack declares one origin access identity and attaches to the resource policy
  of the bucket a statement with effect allow, action \<^verbatim>\<open>s3:GetObject\<close>, resource the
  objects of this bucket under the pattern \<^verbatim>\<open>*\<close>, and principal the canonical user of
  that identity. It is not the only statement of that policy. The policy has three:
  before the stack's, the statement that the constructor of the bucket attaches for the
  automatic deletion; after it, an equal statement that the distribution attaches when
  it binds its origin. The statements that name \<^verbatim>\<open>s3:GetObject\<close> are the stack's and
  its equal.
\<close>

theorem bucket_policy_statement_for_identity:
  "declared is_OriginAccessIdentity (WebsiteDeploymentStack scope ident props) =
     [scope @ [ident, ''CloudFrontOriginAccessIdentity'']] \<and>
   (case tryFindChild (WebsiteDeploymentStack scope ident props)
           (scope @ [ident, ''S3HostingBucket'']) of
      Some (Bucket bucketProps policy) \<Rightarrow>
        (let statement =
           PolicyStatement ALLOW [''s3:GetObject'']
             [arnForObjects (scope @ [ident, ''S3HostingBucket'']) ''*'']
             [CanonicalUserPrincipal (cloudFrontOriginAccessIdentityS3CanonicalUserId
                (scope @ [ident, ''CloudFrontOriginAccessIdentity'']))]
         in policy =
              [PolicyStatement ALLOW
                 [''s3:PutBucketPolicy'', ''s3:GetBucket*'', ''s3:List*'',
                  ''s3:DeleteObject*'']
                 [bucketArn (scope @ [ident, ''S3HostingBucket'']),
                  arnForObjects (scope @ [ident, ''S3HostingBucket'']) ''*'']
                 [ArnPrincipal (roleArn (scope @
                    [ident, ''Custom::S3AutoDeleteObjectsCustomResourceProvider'']))],
               statement, statement] \<and>
            filter (\<lambda>st. ''s3:GetObject'' \<in> set (stmtActions st)) policy =
              [statement, statement] \<and>
            remdups policy =
              [PolicyStatement ALLOW
                 [''s3:PutBucketPolicy'', ''s3:GetBucket*'', ''s3:List*'',
                  ''s3:DeleteObject*'']
                 [bucketArn (scope @ [ident, ''S3HostingBucket'']),
                  arnForObjects (scope @ [ident, ''S3HostingBucket'']) ''*'']
                 [ArnPrincipal (roleArn (scope @
                    [ident, ''Custom::S3AutoDeleteObjectsCustomResourceProvider'']))],
               statement])
    | _ \<Rightarrow> False)"
  by (simp add: s3HostingBucket_declared declared_WebsiteDeploymentStack Let_def)

text \<open>
  At the stack \<^verbatim>\<open>Web\<close> under the app \<^verbatim>\<open>App\<close>, with no props, the policy of the
  bucket does not have exactly one statement.
\<close>

theorem bucket_policy_one_statement_counterexample:
  "\<not> (case tryFindChild (WebsiteDeploymentStack [''App''] ''Web'' None)
             [''App'', ''Web'', ''S3HostingBucket''] of
         Some (Bucket bucketProps policy) \<Rightarrow> length policy = 1
       | _ \<Rightarrow> False)"
  using s3HostingBucket_declared [of "[''App'']" "''Web''" None] by simp

text \<open>
  C8: the stack declares one output, named \<^verbatim>\<open>CloudFrontDomainName\<close>; its value is the
  domain name of the distribution of the stack and it has an export name.
\<close>

theorem one_output_distribution_domain_name:
  "declared is_CfnOutput (WebsiteDeploymentStack scope ident props) =
     [scope @ [ident, ''CloudFrontDomainName'']] \<and>
   (case tryFindChild (WebsiteDeploymentStack scope ident props)
           (scope @ [ident, ''CloudFrontDomainName'']) of
      Some (CfnOutput outputProps) \<Rightarrow>
        value' outputProps = domainName (scope @ [ident, ''CloudFrontDistribution'']) \<and>
        exportName outputProps = Some ''cloudFrontDomainName''
    | _ \<Rightarrow> False) \<and>
   declared is_Distribution (WebsiteDeploymentStack scope ident props) =
     [scope @ [ident, ''CloudFrontDistribution'']]"
  by (simp add: cfnOutput_declared declared_WebsiteDeploymentStack)

text \<open>C9: the default root object of the distribution is \<^verbatim>\<open>index.html\<close>.\<close>

theorem distribution_default_root_object:
  "(case tryFindChild (WebsiteDeploymentStack scope ident props)
           (scope @ [ident, ''CloudFrontDistribution'']) of
      Some (Distribution d) \<Rightarrow> defaultRootObject d = Some ''index.html''
    | _ \<Rightarrow> False)"
  by (simp add: cloudfrontDistribution_declared)

text \<open>
  C10: whatever the arguments of the constructor, the sources of the one deployment are
  the asset directory \<^verbatim>\<open>../website\<close> and nothing else, and the export name of the
  one output is \<^verbatim>\<open>cloudFrontDomainName\<close>.
\<close>

theorem asset_path_and_export_name_fixed:
  "\<forall>scope ident props.
     declared is_BucketDeployment (WebsiteDeploymentStack scope ident props) =
       [scope @ [ident, ''S3HostingBucketDeployment'']] \<and>
     (case tryFindChild (WebsiteDeploymentStack scope ident props)
             (scope @ [ident, ''S3HostingBucketDeployment'']) of
        Some (BucketDeployment deployProps) \<Rightarrow>
          sources deployProps = [Source_asset ''../website'']
      | _ \<Rightarrow> False) \<and>
     declared is_CfnOutput (WebsiteDeploymentStack scope ident props) =
       [scope @ [ident, ''CloudFrontDomainName'']] \<and>
     (case tryFindChild (WebsiteDeploymentStack scope ident props)
             (scope @ [ident, ''CloudFrontDomainName'']) of
        Some (CfnOutput outputProps) \<Rightarrow>
          exportName outputProps = Some ''cloudFrontDomainName''
      | _ \<Rightarrow> False)"
proof (intro allI conjI)
  fix scope ident props
  let ?S = "WebsiteDeploymentStack scope ident props"
  show "declared is_BucketDeployment ?S = [scope @ [ident, ''S3HostingBucketDeployment'']]"
    and "declared is_CfnOutput ?S = [scope @ [ident, ''CloudFrontDomainName'']]"
    by (simp_all add: declared_WebsiteDeploymentStack)
  show "case tryFindChild ?S (scope @ [ident, ''S3HostingBucketDeployment'']) of
          Some (BucketDeployment deployProps) \<Rightarrow>
            sources deployProps = [Source_asset ''../website'']
        | _ \<Rightarrow> False"
    by (simp add: bucketDeployment_declared)
  show "case tryFindChild ?S (scope @ [ident, ''CloudFrontDomainName'']) of
          Some (CfnOutput outputProps) \<Rightarrow>
            exportName outputProps = Some ''cloudFrontDomainName''
        | _ \<Rightarrow> False"
    by (simp add: cfnOutput_declared)
qed

end
